theory Spec2Isabelle
  imports Main
begin

section \<open>JavaScript values\<close>

text \<open>
  Request bodies, job payloads and job results are JavaScript values of JSON shape.
  An object lists its own enumerable properties in enumeration order; a property whose
  value is \<open>undefined\<close> is left out (it does not survive serialisation), and
  \<open>undefined\<close> itself is \<open>None\<close> of type \<open>json option\<close>. Numbers are the integers.
  Strings are byte strings (the UTF-8 encoding), so \<open>length\<close> is the byte length that
  \<open>Buffer.from\<close> produces.
\<close>

datatype json =
    JNull
  | JBool bool
  | JNum int
  | JStr string
  | JArr "json list"
  | JObj "(string \<times> json) list"

fun truthy :: "json \<Rightarrow> bool" where
  "truthy JNull = False"
| "truthy (JBool b) = b"
| "truthy (JNum n) = (n \<noteq> 0)"
| "truthy (JStr s) = (s \<noteq> [])"
| "truthy (JArr xs) = True"
| "truthy (JObj ps) = True"

text \<open>Property access \<open>v.k\<close> for a property name that is not built in.\<close>

fun get_prop :: "json \<Rightarrow> string \<Rightarrow> json option" where
  "get_prop (JObj ps) k = map_of ps k"
| "get_prop v k = None"

definition hexdigit :: "nat \<Rightarrow> char" where
  "hexdigit n = ''0123456789abcdef'' ! (n mod 16)"

fun decimal :: "nat \<Rightarrow> string" where
  "decimal n =
     (if n < 10 then [hexdigit n] else decimal (n div 10) @ [hexdigit (n mod 10)])"

declare decimal.simps [simp del]

definition string_of_int :: "int \<Rightarrow> string" where
  "string_of_int i = (if i < 0 then ''-'' @ decimal (nat (- i)) else decimal (nat i))"

fun join :: "string \<Rightarrow> string list \<Rightarrow> string" where
  "join sep [] = []"
| "join sep [x] = x"
| "join sep (x # y # ys) = x @ sep @ join sep (y # ys)"

text \<open>
  \<open>JSON.stringify\<close> of the language's standard library, without indentation: no white
  space between tokens, strings quoted with the two-character escapes and \<open>\u00XX\<close> for
  the other control characters. (Integers at or beyond \<open>10^21\<close>, which the library prints
  in exponent form, are outside the model.)
\<close>

definition quote_char :: "char \<Rightarrow> string" where
  "quote_char c =
     (if c = CHR 0x22 then [CHR 0x5C, CHR 0x22]
      else if c = CHR 0x5C then [CHR 0x5C, CHR 0x5C]
      else if c = CHR 0x08 then [CHR 0x5C, CHR ''b'']
      else if c = CHR 0x0C then [CHR 0x5C, CHR ''f'']
      else if c = CHR 0x0A then [CHR 0x5C, CHR ''n'']
      else if c = CHR 0x0D then [CHR 0x5C, CHR ''r'']
      else if c = CHR 0x09 then [CHR 0x5C, CHR ''t'']
      else if (of_char c :: nat) < 32
        then [CHR 0x5C, CHR ''u'', CHR ''0'', CHR ''0'',
              hexdigit (of_char c div 16), hexdigit (of_char c)]
      else [c])"

definition quote :: "string \<Rightarrow> string" where
  "quote s = [CHR 0x22] @ concat (map quote_char s) @ [CHR 0x22]"

fun JSON_stringify :: "json \<Rightarrow> string" where
  "JSON_stringify JNull = ''null''"
| "JSON_stringify (JBool b) = (if b then ''true'' else ''false'')"
| "JSON_stringify (JNum n) = string_of_int n"
| "JSON_stringify (JStr s) = quote s"
| "JSON_stringify (JArr xs) = ''['' @ join '','' (map JSON_stringify xs) @ '']''"
| "JSON_stringify (JObj ps) =
     ''{'' @ join '','' (map (\<lambda>(k, v). quote k @ '':'' @ JSON_stringify v) ps) @ ''}''"

text \<open>String conversion, as a template literal \<open>`${v}`\<close> performs it.\<close>

fun js_toString :: "json \<Rightarrow> string" where
  "js_toString JNull = ''null''"
| "js_toString (JBool b) = (if b then ''true'' else ''false'')"
| "js_toString (JNum n) = string_of_int n"
| "js_toString (JStr s) = s"
| "js_toString (JArr xs) =
     join '','' (map (\<lambda>x. if x = JNull then [] else js_toString x) xs)"
| "js_toString (JObj ps) = ''[object Object]''"

definition template :: "json option \<Rightarrow> string" where
  "template v = (case v of None \<Rightarrow> ''undefined'' | Some x \<Rightarrow> js_toString x)"


section \<open>Errors and the error middleware (src/backend/src/middleware/errorHandler.ts)\<close>

text \<open>
  \<open>CustomError message statusCode\<close> is the application's error class. \<open>TypeError\<close> and
  \<open>RangeError\<close> are the runtime's errors, \<open>SystemError\<close> is a failed system call
  (\<open>ENOENT\<close>) and \<open>JsError\<close> a plain \<open>Error\<close> thrown by a library; they carry no
  \<open>statusCode\<close>.
\<close>

datatype js_error =
    CustomError string nat
  | TypeError string
  | RangeError string
  | SystemError string
  | JsError string

fun statusCode :: "js_error \<Rightarrow> nat option" where
  "statusCode (CustomError m c) = Some c"
| "statusCode (TypeError m) = None"
| "statusCode (RangeError m) = None"
| "statusCode (SystemError m) = None"
| "statusCode (JsError m) = None"

fun message :: "js_error \<Rightarrow> string" where
  "message (CustomError m c) = m"
| "message (TypeError m) = m"
| "message (RangeError m) = m"
| "message (SystemError m) = m"
| "message (JsError m) = m"

record env =
  GITHUB_WEBHOOK_SECRET :: "string option"
  GITLAB_WEBHOOK_SECRET :: "string option"
  JWT_SECRET :: "string option"
  NODE_ENV :: "string option"

datatype job_state = waiting | active | completed | failed | delayed | paused | stuck

record job_status =
  st_jobId :: string
  st_status :: job_state
  st_progress :: json
  st_data :: json
  st_result :: "json option"
  st_error :: "string option"

datatype response_body =
    ErrorBody string
  | MessageBody string
  | JobStatusBody job_status

record http_response =
  status :: nat
  body :: response_body

text \<open>
  \<open>errorHandler\<close>: the status is the error's \<open>statusCode\<close>, 500 when it has none; the
  message is shown in development only. (The body's \<open>timestamp\<close>, \<open>path\<close> and \<open>stack\<close>
  fields are left out.)
\<close>

definition errorHandler :: "env \<Rightarrow> js_error \<Rightarrow> http_response" where
  "errorHandler e error =
     (let statusCode = (case statusCode error of None \<Rightarrow> 500 | Some c \<Rightarrow> c);
          isDevelopment = (NODE_ENV e = Some ''development'')
      in \<lparr>status = statusCode,
          body = ErrorBody (if isDevelopment then message error else ''Internal Server Error'')\<rparr>)"

text \<open>
  \<open>asyncHandler\<close> passes whatever the wrapped handler throws to \<open>next\<close>, that is to
  \<open>errorHandler\<close>; a handler that returns has sent its own response.
\<close>

definition asyncHandler :: "env \<Rightarrow> js_error + http_response \<Rightarrow> http_response" where
  "asyncHandler e r = (case r of Inl error \<Rightarrow> errorHandler e error | Inr res \<Rightarrow> res)"


section \<open>Authentication middleware (middleware/auth: src/unnamed/part_000, lines 1-71)\<close>

text \<open>
  \<open>jwt.verify(token, secret)\<close> of the token library returns the decoded payload or
  throws (\<open>None\<close>); the middleware takes it as the argument \<open>verify\<close>.
  \<open>s.split(' ')\<close> cuts a string at every space.
\<close>

type_synonym jwt_verify = "string \<Rightarrow> string option \<Rightarrow> json option"

fun split_on :: "char \<Rightarrow> string \<Rightarrow> string list" where
  "split_on c [] = [[]]"
| "split_on c (x # xs) =
     (if x = c then [] # split_on c xs
      else (case split_on c xs of [] \<Rightarrow> [[x]] | y # ys \<Rightarrow> (x # y) # ys))"

definition nth_opt :: "'a list \<Rightarrow> nat \<Rightarrow> 'a option" where
  "nth_opt xs i = (if i < length xs then Some (xs ! i) else None)"

record user =
  user_id :: "json option"
  email :: "json option"
  username :: "json option"
  role :: "json option"

definition authenticateToken :: "jwt_verify \<Rightarrow> env \<Rightarrow> string option \<Rightarrow> js_error + user" where
  "authenticateToken verify e authHeader =
     (let token =
            (case authHeader of
               None \<Rightarrow> None
             | Some h \<Rightarrow> if h = [] then Some [] else nth_opt (split_on CHR '' '' h) 1)
      in case token of
           None \<Rightarrow> Inl (CustomError ''Access token required'' 401)
         | Some t \<Rightarrow>
             if t = [] then Inl (CustomError ''Access token required'' 401)
             else
               (case verify t (JWT_SECRET e) of
                  None \<Rightarrow> Inl (CustomError ''Invalid or expired token'' 403)
                | Some decoded \<Rightarrow>
                    Inr \<lparr>user_id = get_prop decoded ''userId'',
                         email = get_prop decoded ''email'',
                         username = get_prop decoded ''username'',
                         role = get_prop decoded ''role''\<rparr>))"



section \<open>Queues (config/queues: src/unnamed/part_002, lines 1-101)\<close>

datatype backoff_kind = exponential | fixed_delay

record backoff_opts =
  backoff_type :: backoff_kind
  backoff_delay :: nat

record job_opts =
  attempts :: nat
  backoff :: backoff_opts

record job =
  job_id :: string
  job_name :: string
  job_data :: json
  opts :: job_opts
  state :: job_state
  progress :: json
  returnvalue :: "json option"
  failedReason :: "string option"

record queue =
  queue_name :: string
  removeOnComplete :: nat
  removeOnFail :: nat
  defaultJobOptions :: job_opts
  last_id :: nat
  jobs :: "job list"

record queues =
  analysisQueue :: queue
  webhookQueue :: queue
  reportQueue :: queue

definition setupQueues :: queues where
  "setupQueues =
     \<lparr>analysisQueue =
        \<lparr>queue_name = ''code analysis'', removeOnComplete = 100, removeOnFail = 50,
         defaultJobOptions =
           \<lparr>attempts = 3, backoff = \<lparr>backoff_type = exponential, backoff_delay = 2000\<rparr>\<rparr>,
         last_id = 0, jobs = []\<rparr>,
      webhookQueue =
        \<lparr>queue_name = ''webhook processing'', removeOnComplete = 200, removeOnFail = 100,
         defaultJobOptions =
           \<lparr>attempts = 5, backoff = \<lparr>backoff_type = exponential, backoff_delay = 1000\<rparr>\<rparr>,
         last_id = 0, jobs = []\<rparr>,
      reportQueue =
        \<lparr>queue_name = ''report generation'', removeOnComplete = 50, removeOnFail = 25,
         defaultJobOptions =
           \<lparr>attempts = 2, backoff = \<lparr>backoff_type = fixed_delay, backoff_delay = 5000\<rparr>\<rparr>,
         last_id = 0, jobs = []\<rparr>\<rparr>"

text \<open>
  \<open>queue.add(name, data, opts)\<close>: the job gets the next identifier of its queue and
  waits; options given with the job replace the queue's defaults. \<open>queue.getJob(id)\<close>
  finds a job by its identifier. A new job has the return value \<open>null\<close> and no failure
  reason. The store behind the queues is taken to be reachable, so \<open>add\<close> and
  \<open>getJob\<close> do not fail.
\<close>

definition Queue_add :: "queue \<Rightarrow> string \<Rightarrow> json \<Rightarrow> job_opts option \<Rightarrow> queue" where
  "Queue_add q name d o_opt =
     q\<lparr>last_id := Suc (last_id q),
       jobs := jobs q @
         [\<lparr>job_id = decimal (Suc (last_id q)), job_name = name, job_data = d,
           opts = (case o_opt of None \<Rightarrow> defaultJobOptions q | Some o' \<Rightarrow> o'),
           state = waiting, progress = JNum 0, returnvalue = Some JNull,
           failedReason = None\<rparr>]\<rparr>"

definition getJob :: "queue \<Rightarrow> string \<Rightarrow> job option" where
  "getJob q jid = find (\<lambda>j. job_id j = jid) (jobs q)"


section \<open>Webhook signatures (services/githubService, services/gitlabService: src/unnamed/part_004, lines 516-527; src/unnamed/part_005, lines 204-215)\<close>

text \<open>
  \<open>crypto.timingSafeEqual\<close> throws a \<open>RangeError\<close> on buffers of different byte length
  and compares the bytes otherwise. \<open>Buffer.from(undefined)\<close> throws a \<open>TypeError\<close>.
\<close>

definition timingSafeEqual :: "string \<Rightarrow> string \<Rightarrow> js_error + bool" where
  "timingSafeEqual a b =
     (if length a \<noteq> length b
      then Inl (RangeError ''Input buffers must have the same byte length'')
      else Inr (a = b))"

definition Buffer_from :: "string option \<Rightarrow> js_error + string" where
  "Buffer_from s =
     (case s of None \<Rightarrow> Inl (TypeError ''The first argument must be of type string'')
      | Some b \<Rightarrow> Inr b)"

text \<open>
  The keyed digest \<open>createHmac('sha256', secret).update(payload).digest('hex')\<close> belongs
  to the runtime's crypto library; the functions below take it as the argument \<open>hmac\<close>
  (secret first, then the message).
\<close>

type_synonym hmac_hex = "string \<Rightarrow> string \<Rightarrow> string"

definition GitHub_verifyWebhookSignature ::
    "hmac_hex \<Rightarrow> string \<Rightarrow> string option \<Rightarrow> string \<Rightarrow> js_error + bool" where
  "GitHub_verifyWebhookSignature hmac payload signature secret =
     (let expectedSignature = ''sha256='' @ hmac secret payload
      in case Buffer_from signature of
           Inl error \<Rightarrow> Inl error
         | Inr sig \<Rightarrow> timingSafeEqual sig expectedSignature)"

definition GitLab_verifyWebhookSignature ::
    "hmac_hex \<Rightarrow> string \<Rightarrow> string option \<Rightarrow> string \<Rightarrow> js_error + bool" where
  "GitLab_verifyWebhookSignature hmac payload signature secret =
     (let expectedSignature = hmac secret payload
      in case Buffer_from signature of
           Inl error \<Rightarrow> Inl error
         | Inr sig \<Rightarrow> timingSafeEqual sig expectedSignature)"


section \<open>Webhook routes (src/unnamed/part_002, lines 681-858)\<close>

text \<open>
  \<open>param('repositoryId').isUUID()\<close> of the validation library: eight, four, four, four
  and twelve hexadecimal digits, separated by hyphens.
\<close>

definition isHexDigit :: "char \<Rightarrow> bool" where
  "isHexDigit c = (c \<in> set ''0123456789abcdefABCDEF'')"

definition isUUID :: "string \<Rightarrow> bool" where
  "isUUID s =
     (length s = 36 \<and>
      list_all (\<lambda>(p, c). if p = CHR ''-'' then c = CHR ''-'' else isHexDigit c)
        (zip ''xxxxxxxx-xxxx-xxxx-xxxx-xxxxxxxxxxxx'' s))"

text \<open>
  A request as the handler sees it: the route parameter, the headers (lower-case names)
  and \<open>req.body\<close>, the body as the body parser left it. \<open>rawBody\<close> is the byte sequence
  that arrived, which the provider signed; no handler reads it.
\<close>

record webhook_request =
  repositoryId :: string
  headers :: "string \<Rightarrow> string option"
  rawBody :: string
  reqBody :: json

definition optional_prop :: "string \<Rightarrow> string option \<Rightarrow> (string \<times> json) list" where
  "optional_prop k v = (case v of None \<Rightarrow> [] | Some s \<Rightarrow> [(k, JStr s)])"

definition webhook_job_data ::
    "string \<Rightarrow> string option \<Rightarrow> json \<Rightarrow> string \<Rightarrow> json" where
  "webhook_job_data rid event payload provider =
     JObj ([(''repositoryId'', JStr rid)] @ optional_prop ''event'' event @
           [(''payload'', payload), (''provider'', JStr provider)])"

definition webhook_job_opts :: job_opts where
  "webhook_job_opts =
     \<lparr>attempts = 3, backoff = \<lparr>backoff_type = exponential, backoff_delay = 2000\<rparr>\<rparr>"

definition github_webhook ::
    "hmac_hex \<Rightarrow> env \<Rightarrow> webhook_request \<Rightarrow> queues \<Rightarrow> (js_error + http_response) \<times> queues" where
  "github_webhook hmac e req qs =
     (if \<not> isUUID (repositoryId req)
      then (Inl (CustomError ''Invalid repository ID'' 400), qs)
      else
        let signature = headers req ''x-hub-signature-256'';
            event = headers req ''x-github-event'';
            payload = reqBody req;
            verified =
              (case GITHUB_WEBHOOK_SECRET e of
                 None \<Rightarrow> Inr True
               | Some webhookSecret \<Rightarrow>
                   if webhookSecret = [] then Inr True
                   else GitHub_verifyWebhookSignature hmac (JSON_stringify payload)
                          signature webhookSecret)
        in case verified of
             Inl error \<Rightarrow> (Inl error, qs)
           | Inr False \<Rightarrow> (Inl (CustomError ''Invalid webhook signature'' 401), qs)
           | Inr True \<Rightarrow>
               (Inr \<lparr>status = 200,
                     body = MessageBody ''Webhook received and queued for processing''\<rparr>,
                qs\<lparr>webhookQueue :=
                     Queue_add (webhookQueue qs) ''process-github-webhook''
                       (webhook_job_data (repositoryId req) event payload ''github'')
                       (Some webhook_job_opts)\<rparr>))"

definition gitlab_webhook ::
    "hmac_hex \<Rightarrow> env \<Rightarrow> webhook_request \<Rightarrow> queues \<Rightarrow> (js_error + http_response) \<times> queues" where
  "gitlab_webhook hmac e req qs =
     (if \<not> isUUID (repositoryId req)
      then (Inl (CustomError ''Invalid repository ID'' 400), qs)
      else
        let signature = headers req ''x-gitlab-token'';
            event = headers req ''x-gitlab-event'';
            payload = reqBody req;
            verified =
              (case GITLAB_WEBHOOK_SECRET e of
                 None \<Rightarrow> Inr True
               | Some webhookSecret \<Rightarrow>
                   if webhookSecret = [] then Inr True
                   else GitLab_verifyWebhookSignature hmac (JSON_stringify payload)
                          signature webhookSecret)
        in case verified of
             Inl error \<Rightarrow> (Inl error, qs)
           | Inr False \<Rightarrow> (Inl (CustomError ''Invalid webhook signature'' 401), qs)
           | Inr True \<Rightarrow>
               (Inr \<lparr>status = 200,
                     body = MessageBody ''Webhook received and queued for processing''\<rparr>,
                qs\<lparr>webhookQueue :=
                     Queue_add (webhookQueue qs) ''process-gitlab-webhook''
                       (webhook_job_data (repositoryId req) event payload ''gitlab'')
                       (Some webhook_job_opts)\<rparr>))"

text \<open>The response the client receives: the handler under \<open>asyncHandler\<close>.\<close>

definition github_route ::
    "hmac_hex \<Rightarrow> env \<Rightarrow> webhook_request \<Rightarrow> queues \<Rightarrow> http_response \<times> queues" where
  "github_route hmac e req qs =
     (case github_webhook hmac e req qs of (r, qs') \<Rightarrow> (asyncHandler e r, qs'))"

definition gitlab_route ::
    "hmac_hex \<Rightarrow> env \<Rightarrow> webhook_request \<Rightarrow> queues \<Rightarrow> http_response \<times> queues" where
  "gitlab_route hmac e req qs =
     (case gitlab_webhook hmac e req qs of (r, qs') \<Rightarrow> (asyncHandler e r, qs'))"


section \<open>Retry delays\<close>

text \<open>
  Modelled from the spec: the delay that a queue applies before a retry is computed by
  the queue library, whose code is not part of the repository's sources; the repository
  only chooses the policy (\<open>setupQueues\<close> above). The spec gives the delay as
  \<open>baseDelay * 2^(attemptCount-1)\<close> for \<open>exponential\<close> and \<open>baseDelay\<close> for \<open>fixed\<close>,
  with attempts counted from 1.
\<close>

definition retryDelay :: "backoff_opts \<Rightarrow> nat \<Rightarrow> nat" where
  "retryDelay b attemptCount =
     (case backoff_type b of
        exponential \<Rightarrow> backoff_delay b * 2 ^ (attemptCount - 1)
      | fixed_delay \<Rightarrow> backoff_delay b)"

datatype queue_kind = analysis | webhook | report

fun queue_of :: "queues \<Rightarrow> queue_kind \<Rightarrow> queue" where
  "queue_of qs analysis = analysisQueue qs"
| "queue_of qs webhook = webhookQueue qs"
| "queue_of qs report = reportQueue qs"

definition policy :: "queue_kind \<Rightarrow> job_opts" where
  "policy k = defaultJobOptions (queue_of setupQueues k)"


section \<open>Report routes (src/unnamed/part_002, lines 338-680)\<close>

text \<open>A route parameter is a string, so \<open>param('jobId').isString()\<close> holds.\<close>

definition isString :: "string \<Rightarrow> bool" where
  "isString s = True"



text \<open>
  The file system is a map from paths to contents. A download either throws inside the
  handler, or pipes a file to the response with the two headers set, or opens a read
  stream on a path that does not exist: the stream then emits \<open>error\<close>, to which the
  handler has attached no listener, after the handler has returned.
\<close>

type_synonym file_system = "string \<Rightarrow> string option"

datatype download_outcome =
    Piped string string string
  | UnhandledStreamError string

definition download_report ::
    "string \<Rightarrow> queues \<Rightarrow> file_system \<Rightarrow> (js_error + download_outcome) \<times> file_system" where
  "download_report jobId qs fs =
     (if \<not> isString jobId then (Inl (CustomError ''Invalid job ID'' 400), fs)
      else case getJob (reportQueue qs) jobId of
        None \<Rightarrow> (Inl (CustomError ''Job not found'' 404), fs)
      | Some job \<Rightarrow>
          if state job \<noteq> completed then (Inl (CustomError ''Report not ready yet'' 202), fs)
          else
            (case returnvalue job of
               None \<Rightarrow> (Inl (CustomError ''Report file not found'' 404), fs)
             | Some result \<Rightarrow>
                 if \<not> truthy result then (Inl (CustomError ''Report file not found'' 404), fs)
                 else
                   (case get_prop result ''filePath'' of
                      None \<Rightarrow> (Inl (CustomError ''Report file not found'' 404), fs)
                    | Some filePath \<Rightarrow>
                        if \<not> truthy filePath
                        then (Inl (CustomError ''Report file not found'' 404), fs)
                        else
                          let contentType =
                                (case get_prop result ''contentType'' of
                                   None \<Rightarrow> ''application/pdf''
                                 | Some c \<Rightarrow>
                                     if truthy c then js_toString c else ''application/pdf'');
                              disposition =
                                ''attachment; filename='' @ [CHR 0x22] @
                                template (get_prop result ''filename'') @ [CHR 0x22]
                          in (case filePath of
                                JStr path \<Rightarrow>
                                  (case fs path of
                                     None \<Rightarrow> (Inr (UnhandledStreamError path), fs)
                                   | Some content \<Rightarrow>
                                       (Inr (Piped contentType disposition content),
                                        fs(path := None)))
                              | _ \<Rightarrow>
                                  (Inl (TypeError ''The path argument must be of type string''),
                                   fs)))))"


definition download_route ::
    "jwt_verify \<Rightarrow> env \<Rightarrow> string option \<Rightarrow> string \<Rightarrow> queues \<Rightarrow> file_system
       \<Rightarrow> (js_error + download_outcome) \<times> file_system" where
  "download_route verify e authHeader jobId qs fs =
     (case authenticateToken verify e authHeader of
        Inl error \<Rightarrow> (Inl error, fs)
      | Inr u \<Rightarrow> download_report jobId qs fs)"


section \<open>The lint service (src/unnamed/part_006)\<close>

record ESLintIssue =
  ruleId :: string
  severity :: nat
  issue_message :: string
  line :: nat
  column :: nat
  issue_fix :: "((nat \<times> nat) \<times> string) option"

record ESLintResult =
  filePath :: string
  messages :: "ESLintIssue list"
  errorCount :: nat
  warningCount :: nat
  fixableErrorCount :: nat
  fixableWarningCount :: nat
  usedDeprecatedRules :: "(string \<times> string list) list"

record eslint_options =
  useEslintrc :: bool
  baseConfig :: json
  opt_fix :: bool

definition getDefaultConfig :: json where
  "getDefaultConfig =
     JObj [
       (''env'', JObj [(''browser'', JBool True), (''es2021'', JBool True), (''node'', JBool True)]),
       (''extends'', JArr [JStr ''eslint:recommended'', JStr ''@typescript-eslint/recommended'']),
       (''parser'', JStr ''@typescript-eslint/parser''),
       (''parserOptions'', JObj [(''ecmaVersion'', JNum 12), (''sourceType'', JStr ''module'')]),
       (''plugins'', JArr [JStr ''@typescript-eslint'']),
       (''rules'', JObj [
          (''no-unused-vars'', JStr ''warn''),
          (''no-console'', JStr ''warn''),
          (''no-debugger'', JStr ''error''),
          (''no-alert'', JStr ''error''),
          (''no-var'', JStr ''error''),
          (''prefer-const'', JStr ''error''),
          (''no-duplicate-imports'', JStr ''error''),
          (''no-unreachable'', JStr ''error''),
          (''no-undef'', JStr ''error''),
          (''no-unused-expressions'', JStr ''warn''),
          (''no-constant-condition'', JStr ''error''),
          (''no-empty'', JStr ''warn''),
          (''no-extra-semi'', JStr ''error''),
          (''no-func-assign'', JStr ''error''),
          (''no-import-assign'', JStr ''error''),
          (''no-invalid-regexp'', JStr ''error''),
          (''no-irregular-whitespace'', JStr ''error''),
          (''no-obj-calls'', JStr ''error''),
          (''no-redeclare'', JStr ''error''),
          (''no-sparse-arrays'', JStr ''error''),
          (''no-unexpected-multiline'', JStr ''error''),
          (''use-isnan'', JStr ''error''),
          (''valid-typeof'', JStr ''error''),
          (''@typescript-eslint/no-unused-vars'', JStr ''warn''),
          (''@typescript-eslint/no-explicit-any'', JStr ''warn''),
          (''@typescript-eslint/explicit-function-return-type'', JStr ''off''),
          (''@typescript-eslint/explicit-module-boundary-types'', JStr ''off''),
          (''@typescript-eslint/no-inferrable-types'', JStr ''off''),
          (''@typescript-eslint/no-non-null-assertion'', JStr ''warn''),
          (''@typescript-eslint/prefer-as-const'', JStr ''error''),
          (''@typescript-eslint/no-array-constructor'', JStr ''error''),
          (''@typescript-eslint/no-empty-function'', JStr ''warn''),
          (''@typescript-eslint/no-extra-non-null-assertion'', JStr ''error''),
          (''@typescript-eslint/no-misused-new'', JStr ''error''),
          (''@typescript-eslint/no-namespace'', JStr ''error''),
          (''@typescript-eslint/no-this-alias'', JStr ''error''),
          (''@typescript-eslint/no-var-requires'', JStr ''error''),
          (''@typescript-eslint/prefer-namespace-keyword'', JStr ''error''),
          (''@typescript-eslint/triple-slash-reference'', JStr ''error'')])]"

text \<open>
  The lint engine is the external library. \<open>lintFiles\<close> reads the files it is given and
  returns one result per file, or throws; in fix mode too it leaves the files as they
  are (writing the corrected text back is the separate call \<open>outputFixes\<close>, which the
  service never makes). So the engine is a function of its options, the file system and
  the paths, passed to the service as the argument \<open>lintFiles\<close>.
\<close>

type_synonym lint_engine =
  "eslint_options \<Rightarrow> file_system \<Rightarrow> string list \<Rightarrow> js_error + ESLintResult list"

text \<open>\<open>path.join\<close> on a directory and a plain file name.\<close>

definition path_join :: "string \<Rightarrow> string \<Rightarrow> string" where
  "path_join dir name = dir @ ''/'' @ name"

record fix_result =
  fixed :: bool
  fix_output :: string
  fix_messages :: "ESLintIssue list"

text \<open>
  \<open>fixCode\<close>: write the source to a temporary file, lint it in fix mode, read the
  file back, delete it. An exception of the engine is logged and thrown again, with the
  temporary file still there. \<open>results[0]\<close> of an empty result list is \<open>undefined\<close>, and
  reading its \<open>fixableErrorCount\<close> throws after the file has been deleted.
\<close>

definition fixCode ::
    "lint_engine \<Rightarrow> string \<Rightarrow> file_system \<Rightarrow> string \<Rightarrow> string \<Rightarrow> json option
       \<Rightarrow> (js_error + fix_result) \<times> file_system" where
  "fixCode lintFiles tempDir fs sourceCode filename customConfig =
     (let tempFilePath = path_join tempDir filename;
          fs1 = fs(tempFilePath \<mapsto> sourceCode);
          eslint =
            (case customConfig of
               Some c \<Rightarrow> \<lparr>useEslintrc = False, baseConfig = c, opt_fix = True\<rparr>
             | None \<Rightarrow> \<lparr>useEslintrc = False, baseConfig = getDefaultConfig, opt_fix = True\<rparr>)
      in case lintFiles eslint fs1 [tempFilePath] of
           Inl error \<Rightarrow> (Inl error, fs1)
         | Inr results \<Rightarrow>
             (case fs1 tempFilePath of
                None \<Rightarrow> (Inl (SystemError ''ENOENT: no such file or directory''), fs1)
              | Some fixedContent \<Rightarrow>
                  let fs2 = fs1(tempFilePath := None)
                  in (case results of
                        [] \<Rightarrow>
                          (Inl (TypeError ''Cannot read properties of undefined''), fs2)
                      | result # _ \<Rightarrow>
                          (Inr \<lparr>fixed = (fixableErrorCount result > 0 \<or>
                                        fixableWarningCount result > 0),
                                fix_output = fixedContent,
                                fix_messages = messages result\<rparr>,
                           fs2))))"






section \<open>Real-time fanout (src/unnamed/part_000, lines 72-171)\<close>

text \<open>
  The socket server, as far as the emit helpers use it: which sockets have joined which
  room, and what has been delivered to which socket (socket id, event name, payload).
  \<open>io.to(room).emit(event, data)\<close> of the socket library first refuses the event names
  that the library keeps for itself, by throwing an \<open>Error\<close>, whoever is in the room;
  otherwise it delivers to the sockets that are in the room at that moment and keeps
  nothing for later. \<open>ioInstance\<close> is \<open>null\<close> until \<open>setupWebSocket\<close>.
\<close>

record io_server =
  rooms :: "string \<Rightarrow> string list"
  delivered :: "(string \<times> string \<times> json) list"

definition RESERVED_EVENTS :: "string list" where
  "RESERVED_EVENTS =
     [''connect'', ''connect_error'', ''disconnect'', ''disconnecting'', ''newListener'',
      ''removeListener'']"

definition to_emit :: "io_server \<Rightarrow> string \<Rightarrow> string \<Rightarrow> json \<Rightarrow> js_error + io_server" where
  "to_emit io room event d =
     (if event \<in> set RESERVED_EVENTS
      then Inl (JsError ([CHR 0x22] @ event @ [CHR 0x22] @ '' is a reserved event name''))
      else Inr (io\<lparr>delivered :=
                    delivered io @ map (\<lambda>socket. (socket, event, d)) (rooms io room)\<rparr>))"


definition socket_leave :: "io_server \<Rightarrow> string \<Rightarrow> string \<Rightarrow> io_server" where
  "socket_leave io socket room =
     io\<lparr>rooms := (rooms io)(room := removeAll socket (rooms io room))\<rparr>"

definition setupWebSocket :: "io_server \<Rightarrow> io_server option" where
  "setupWebSocket io = Some io"





definition emitToAdmins ::
    "io_server option \<Rightarrow> string \<Rightarrow> json \<Rightarrow> js_error + io_server option" where
  "emitToAdmins ioInstance event d =
     (case ioInstance of None \<Rightarrow> Inr None
      | Some io \<Rightarrow> map_sum id Some (to_emit io ''admin'' event d))"


section \<open>Sample inputs\<close>

text \<open>
  A concrete keyed function with the output format of \<open>digest('hex')\<close> for SHA-256, 64
  lower-case hexadecimal digits. It is not HMAC-SHA256; it instantiates \<open>hmac\<close> where a
  statement is run on concrete requests.
\<close>

definition hex_byte :: "nat \<Rightarrow> string" where
  "hex_byte n = [hexdigit (n div 16), hexdigit n]"

definition sample_hmac :: hmac_hex where
  "sample_hmac secret payload =
     take 64 (concat (map (\<lambda>c. hex_byte (of_char c)) (secret @ payload)) @
              replicate 64 CHR ''0'')"

definition sample_uuid :: string where
  "sample_uuid = ''123e4567-e89b-12d3-a456-426614174000''"

definition sample_env :: env where
  "sample_env =
     \<lparr>GITHUB_WEBHOOK_SECRET = Some ''s3cret'', GITLAB_WEBHOOK_SECRET = Some ''s3cret'',
      JWT_SECRET = Some ''jwt-secret'', NODE_ENV = Some ''production''\<rparr>"

definition open_env :: env where
  "open_env =
     \<lparr>GITHUB_WEBHOOK_SECRET = None, GITLAB_WEBHOOK_SECRET = None,
      JWT_SECRET = Some ''jwt-secret'', NODE_ENV = Some ''production''\<rparr>"

text \<open>A token verifier that knows one token, and the header that carries it.\<close>

definition sample_verify :: jwt_verify where
  "sample_verify token secret =
     (if token = ''good-token'' \<and> secret = Some ''jwt-secret''
      then Some (JObj [(''userId'', JStr ''u1''), (''role'', JStr ''user'')])
      else None)"

definition sample_auth :: "string option" where
  "sample_auth = Some ''Bearer good-token''"

definition sample_payload :: json where
  "sample_payload = JObj [(''a'', JNum 1)]"

definition sample_raw :: string where
  "sample_raw =
     [CHR ''{'', CHR 0x22, CHR ''a'', CHR 0x22, CHR '':'', CHR '' '', CHR ''1'', CHR ''}'']"

definition sample_request :: "string option \<Rightarrow> webhook_request" where
  "sample_request signature =
     \<lparr>repositoryId = sample_uuid,
      headers = (\<lambda>h. if h = ''x-hub-signature-256'' \<or> h = ''x-gitlab-token'' then signature
                     else if h = ''x-github-event'' then Some ''push''
                     else if h = ''x-gitlab-event'' then Some ''Push Hook''
                     else None),
      rawBody = sample_raw,
      reqBody = sample_payload\<rparr>"

text \<open>The sample request with the signature that its sender computes over the raw body.\<close>

definition signed_request :: webhook_request where
  "signed_request = sample_request (Some (''sha256='' @ sample_hmac ''s3cret'' sample_raw))"

text \<open>
  A report queue with one finished job, and the file that the job wrote.
\<close>

definition sample_report_job :: job where
  "sample_report_job =
     \<lparr>job_id = ''1'', job_name = ''generate-pdf-report'',
      job_data = JObj [(''reviewId'', JStr sample_uuid), (''type'', JStr ''review''),
                       (''format'', JStr ''pdf'')],
      opts = \<lparr>attempts = 2, backoff = \<lparr>backoff_type = fixed_delay, backoff_delay = 5000\<rparr>\<rparr>,
      state = completed, progress = JNum 100,
      returnvalue = Some (JObj [(''filePath'', JStr ''/tmp/reports/1.pdf''),
                                (''filename'', JStr ''review.pdf'')]),
      failedReason = None\<rparr>"

definition sample_queues :: queues where
  "sample_queues =
     setupQueues\<lparr>reportQueue := (reportQueue setupQueues)\<lparr>last_id := 1, jobs := [sample_report_job]\<rparr>\<rparr>"

definition sample_fs :: file_system where
  "sample_fs = Map.empty(''/tmp/reports/1.pdf'' \<mapsto> ''%PDF-1.7'')"

text \<open>A lint engine that finds nothing left to report in any file.\<close>

definition clean_result :: "string \<Rightarrow> ESLintResult" where
  "clean_result p =
     \<lparr>filePath = p, messages = [], errorCount = 0, warningCount = 0, fixableErrorCount = 0,
      fixableWarningCount = 0, usedDeprecatedRules = []\<rparr>"

definition sample_lintFiles :: lint_engine where
  "sample_lintFiles eslint fs paths = Inr (map clean_result paths)"









section \<open>Webhook routes: properties\<close>

lemma length_sample_hmac: "length (sample_hmac secret payload) = 64"
  by (simp add: sample_hmac_def)

lemma isUUID_sample: "isUUID sample_uuid"
  by (simp add: isUUID_def sample_uuid_def isHexDigit_def)

lemma stringify_sample:
  "JSON_stringify sample_payload =
     [CHR ''{'', CHR 0x22, CHR ''a'', CHR 0x22, CHR '':'', CHR ''1'', CHR ''}'']"
  by (simp add: sample_payload_def quote_def quote_char_def string_of_int_def
      decimal.simps hexdigit_def)

lemma sample_digests_differ:
  "sample_hmac ''s3cret'' (rawBody (sample_request s)) \<noteq>
   sample_hmac ''s3cret'' (JSON_stringify (reqBody (sample_request s)))"
  by (simp add: sample_request_def sample_raw_def stringify_sample sample_hmac_def hex_byte_def
      hexdigit_def)

lemma timingSafeEqual_same_length:
  "length a = length b \<Longrightarrow> timingSafeEqual a b = Inr (a = b)"
  by (simp add: timingSafeEqual_def)

lemma timingSafeEqual_other_length:
  "length a \<noteq> length b \<Longrightarrow>
   timingSafeEqual a b = Inl (RangeError ''Input buffers must have the same byte length'')"
  by (simp add: timingSafeEqual_def)

lemma GitHub_verify_absent:
  "GitHub_verifyWebhookSignature hmac payload None secret =
     Inl (TypeError ''The first argument must be of type string'')"
  by (simp add: GitHub_verifyWebhookSignature_def Buffer_from_def)

lemma GitLab_verify_absent:
  "GitLab_verifyWebhookSignature hmac payload None secret =
     Inl (TypeError ''The first argument must be of type string'')"
  by (simp add: GitLab_verifyWebhookSignature_def Buffer_from_def)

lemma GitHub_verify_present:
  "GitHub_verifyWebhookSignature hmac payload (Some s) secret =
     timingSafeEqual s (''sha256='' @ hmac secret payload)"
  by (simp add: GitHub_verifyWebhookSignature_def Buffer_from_def)

lemma GitLab_verify_present:
  "GitLab_verifyWebhookSignature hmac payload (Some s) secret =
     timingSafeEqual s (hmac secret payload)"
  by (simp add: GitLab_verifyWebhookSignature_def Buffer_from_def)

lemma jobs_Queue_add:
  "jobs (Queue_add q name d (Some o')) =
     jobs q @ [\<lparr>job_id = decimal (Suc (last_id q)), job_name = name, job_data = d,
                opts = o', state = waiting, progress = JNum 0, returnvalue = Some JNull,
                failedReason = None\<rparr>]"
  by (simp add: Queue_add_def)

lemma github_webhook_invalid_id:
  "\<not> isUUID (repositoryId req) \<Longrightarrow>
   github_webhook hmac e req qs = (Inl (CustomError ''Invalid repository ID'' 400), qs)"
  by (simp add: github_webhook_def)

lemma gitlab_webhook_invalid_id:
  "\<not> isUUID (repositoryId req) \<Longrightarrow>
   gitlab_webhook hmac e req qs = (Inl (CustomError ''Invalid repository ID'' 400), qs)"
  by (simp add: gitlab_webhook_def)

lemma github_webhook_no_secret:
  "isUUID (repositoryId req) \<Longrightarrow>
   GITHUB_WEBHOOK_SECRET e = None \<or> GITHUB_WEBHOOK_SECRET e = Some [] \<Longrightarrow>
   github_webhook hmac e req qs =
     (Inr \<lparr>status = 200, body = MessageBody ''Webhook received and queued for processing''\<rparr>,
      qs\<lparr>webhookQueue :=
           Queue_add (webhookQueue qs) ''process-github-webhook''
             (webhook_job_data (repositoryId req) (headers req ''x-github-event'')
                (reqBody req) ''github'')
             (Some webhook_job_opts)\<rparr>)"
  by (auto simp add: github_webhook_def)

lemma gitlab_webhook_no_secret:
  "isUUID (repositoryId req) \<Longrightarrow>
   GITLAB_WEBHOOK_SECRET e = None \<or> GITLAB_WEBHOOK_SECRET e = Some [] \<Longrightarrow>
   gitlab_webhook hmac e req qs =
     (Inr \<lparr>status = 200, body = MessageBody ''Webhook received and queued for processing''\<rparr>,
      qs\<lparr>webhookQueue :=
           Queue_add (webhookQueue qs) ''process-gitlab-webhook''
             (webhook_job_data (repositoryId req) (headers req ''x-gitlab-event'')
                (reqBody req) ''gitlab'')
             (Some webhook_job_opts)\<rparr>)"
  by (auto simp add: gitlab_webhook_def)

lemma github_webhook_secret:
  "isUUID (repositoryId req) \<Longrightarrow> GITHUB_WEBHOOK_SECRET e = Some secret \<Longrightarrow> secret \<noteq> [] \<Longrightarrow>
   github_webhook hmac e req qs =
     (case GitHub_verifyWebhookSignature hmac (JSON_stringify (reqBody req))
             (headers req ''x-hub-signature-256'') secret of
        Inl error \<Rightarrow> (Inl error, qs)
      | Inr False \<Rightarrow> (Inl (CustomError ''Invalid webhook signature'' 401), qs)
      | Inr True \<Rightarrow>
          (Inr \<lparr>status = 200,
                body = MessageBody ''Webhook received and queued for processing''\<rparr>,
           qs\<lparr>webhookQueue :=
                Queue_add (webhookQueue qs) ''process-github-webhook''
                  (webhook_job_data (repositoryId req) (headers req ''x-github-event'')
                     (reqBody req) ''github'')
                  (Some webhook_job_opts)\<rparr>))"
  by (simp add: github_webhook_def Let_def)

lemma gitlab_webhook_secret:
  "isUUID (repositoryId req) \<Longrightarrow> GITLAB_WEBHOOK_SECRET e = Some secret \<Longrightarrow> secret \<noteq> [] \<Longrightarrow>
   gitlab_webhook hmac e req qs =
     (case GitLab_verifyWebhookSignature hmac (JSON_stringify (reqBody req))
             (headers req ''x-gitlab-token'') secret of
        Inl error \<Rightarrow> (Inl error, qs)
      | Inr False \<Rightarrow> (Inl (CustomError ''Invalid webhook signature'' 401), qs)
      | Inr True \<Rightarrow>
          (Inr \<lparr>status = 200,
                body = MessageBody ''Webhook received and queued for processing''\<rparr>,
           qs\<lparr>webhookQueue :=
                Queue_add (webhookQueue qs) ''process-gitlab-webhook''
                  (webhook_job_data (repositoryId req) (headers req ''x-gitlab-event'')
                     (reqBody req) ''gitlab'')
                  (Some webhook_job_opts)\<rparr>))"
  by (simp add: gitlab_webhook_def Let_def)

lemma errorHandler_status:
  "status (errorHandler e error) = (case statusCode error of None \<Rightarrow> 500 | Some c \<Rightarrow> c)"
  by (simp add: errorHandler_def)


lemma github_route_thrown:
  "github_webhook hmac e req qs = (Inl error, qs') \<Longrightarrow>
   github_route hmac e req qs = (errorHandler e error, qs')"
  by (simp add: github_route_def asyncHandler_def)

lemma gitlab_route_thrown:
  "gitlab_webhook hmac e req qs = (Inl error, qs') \<Longrightarrow>
   gitlab_route hmac e req qs = (errorHandler e error, qs')"
  by (simp add: gitlab_route_def asyncHandler_def)

lemma github_route_sent:
  "github_webhook hmac e req qs = (Inr res, qs') \<Longrightarrow>
   github_route hmac e req qs = (res, qs')"
  by (simp add: github_route_def asyncHandler_def)

lemma gitlab_route_sent:
  "gitlab_webhook hmac e req qs = (Inr res, qs') \<Longrightarrow>
   gitlab_route hmac e req qs = (res, qs')"
  by (simp add: gitlab_route_def asyncHandler_def)

lemma github_webhook_rejects:
  assumes "isUUID (repositoryId req)" "GITHUB_WEBHOOK_SECRET e = Some secret" "secret \<noteq> []"
    and "headers req ''x-hub-signature-256'' = Some s"
    and "length s = length (''sha256='' @ hmac secret (JSON_stringify (reqBody req)))"
    and "s \<noteq> ''sha256='' @ hmac secret (JSON_stringify (reqBody req))"
  shows "github_webhook hmac e req qs =
           (Inl (CustomError ''Invalid webhook signature'' 401), qs)"
  using assms
  by (simp add: github_webhook_secret GitHub_verify_present timingSafeEqual_def)

lemma github_webhook_accepts:
  assumes "isUUID (repositoryId req)" "GITHUB_WEBHOOK_SECRET e = Some secret" "secret \<noteq> []"
    and "headers req ''x-hub-signature-256'' =
           Some (''sha256='' @ hmac secret (JSON_stringify (reqBody req)))"
  shows "github_webhook hmac e req qs =
     (Inr \<lparr>status = 200, body = MessageBody ''Webhook received and queued for processing''\<rparr>,
      qs\<lparr>webhookQueue :=
           Queue_add (webhookQueue qs) ''process-github-webhook''
             (webhook_job_data (repositoryId req) (headers req ''x-github-event'')
                (reqBody req) ''github'')
             (Some webhook_job_opts)\<rparr>)"
  using assms
  by (simp add: github_webhook_secret GitHub_verify_present timingSafeEqual_def)

text \<open>
  Claim C1 says that, with a secret configured, a request whose signature does not verify
  is answered with 401 and enqueues nothing, and that a verified request enqueues one
  job and is answered with 200. The handler does so for a signature of the expected
  length (\<open>github_webhook_rejects\<close>, \<open>github_webhook_accepts\<close>). For a request that
  carries no signature header, or a signature of another length, verification throws;
  the error has no status code, so the answer is 500. Nothing is enqueued. Here the
  route is run on two such requests.
\<close>

theorem github_malformed_signature_is_500:
  "github_route sample_hmac sample_env (sample_request None) setupQueues =
     (\<lparr>status = 500, body = ErrorBody ''Internal Server Error''\<rparr>, setupQueues) \<and>
   github_route sample_hmac sample_env (sample_request (Some ''sha256=abc'')) setupQueues =
     (\<lparr>status = 500, body = ErrorBody ''Internal Server Error''\<rparr>, setupQueues)"
proof -
  have id: "isUUID (repositoryId (sample_request s))" for s
    by (simp add: sample_request_def isUUID_sample)
  have sec: "GITHUB_WEBHOOK_SECRET sample_env = Some ''s3cret''"
    by (simp add: sample_env_def)
  have dev: "NODE_ENV sample_env \<noteq> Some ''development''"
    by (simp add: sample_env_def)
  have h: "headers (sample_request s) ''x-hub-signature-256'' = s" for s
    by (simp add: sample_request_def)
  have a: "github_webhook sample_hmac sample_env (sample_request None) setupQueues =
      (Inl (TypeError ''The first argument must be of type string''), setupQueues)"
    by (simp add: github_webhook_secret [OF id sec] h GitHub_verify_absent)
  have b: "github_webhook sample_hmac sample_env (sample_request (Some ''sha256=abc''))
        setupQueues =
      (Inl (RangeError ''Input buffers must have the same byte length''), setupQueues)"
    by (simp add: github_webhook_secret [OF id sec] h GitHub_verify_present
        timingSafeEqual_def length_sample_hmac)
  show ?thesis
    using dev by (simp add: github_route_thrown [OF a] github_route_thrown [OF b] errorHandler_def)
qed

text \<open>
  Claim C2 says that the digest is computed over the raw request body, the bytes that
  the provider signed. The handler computes it over \<open>JSON.stringify(req.body)\<close>. So a
  request that carries the signature of its raw body is rejected with 401 whenever the
  re-serialised body has another digest than the raw body, for every digest function
  with an output of fixed length.
\<close>

theorem signed_raw_body_rejected:
  assumes "isUUID (repositoryId req)"
    and "GITHUB_WEBHOOK_SECRET e = Some secret" and "secret \<noteq> []"
    and "headers req ''x-hub-signature-256'' = Some (''sha256='' @ hmac secret (rawBody req))"
    and "length (hmac secret (rawBody req)) =
         length (hmac secret (JSON_stringify (reqBody req)))"
    and "hmac secret (rawBody req) \<noteq> hmac secret (JSON_stringify (reqBody req))"
  shows "github_route hmac e req qs = (errorHandler e (CustomError ''Invalid webhook signature'' 401), qs)
       \<and> status (fst (github_route hmac e req qs)) = 401"
proof -
  have "github_webhook hmac e req qs =
          (Inl (CustomError ''Invalid webhook signature'' 401), qs)"
    using assms by (simp add: github_webhook_rejects)
  then show ?thesis
    by (simp add: github_route_thrown errorHandler_status)
qed

theorem signed_raw_body_rejected_witness:
  "isUUID (repositoryId signed_request) \<and>
   headers signed_request ''x-hub-signature-256'' =
     Some (''sha256='' @ sample_hmac ''s3cret'' (rawBody signed_request)) \<and>
   github_route sample_hmac sample_env signed_request setupQueues =
     (\<lparr>status = 401, body = ErrorBody ''Internal Server Error''\<rparr>, setupQueues)"
proof -
  have id: "isUUID (repositoryId signed_request)"
    by (simp add: signed_request_def sample_request_def isUUID_sample)
  have sec: "GITHUB_WEBHOOK_SECRET sample_env = Some ''s3cret''"
    by (simp add: sample_env_def)
  have ne: "''s3cret'' \<noteq> []" by simp
  have h: "headers signed_request ''x-hub-signature-256'' =
      Some (''sha256='' @ sample_hmac ''s3cret'' (rawBody signed_request))"
    by (simp add: signed_request_def sample_request_def)
  have len: "length (sample_hmac ''s3cret'' (rawBody signed_request)) =
      length (sample_hmac ''s3cret'' (JSON_stringify (reqBody signed_request)))"
    by (simp add: length_sample_hmac)
  have d: "sample_hmac ''s3cret'' (rawBody signed_request) \<noteq>
      sample_hmac ''s3cret'' (JSON_stringify (reqBody signed_request))"
    unfolding signed_request_def by (rule sample_digests_differ)
  have dev: "NODE_ENV sample_env \<noteq> Some ''development''"
    by (simp add: sample_env_def)
  from signed_raw_body_rejected [where hmac = sample_hmac and qs = setupQueues, OF id sec ne h len d]
  show ?thesis
    using id h dev by (simp add: errorHandler_def)
qed


lemma isl_timingSafeEqual:
  "length a \<noteq> length b \<Longrightarrow> isl (timingSafeEqual a b)"
  by (simp add: timingSafeEqual_def)

lemma statusCode_timingSafeEqual:
  "timingSafeEqual a b = Inl error \<Longrightarrow> statusCode error = None"
  by (auto simp add: timingSafeEqual_def split: if_splits)

lemma statusCode_GitHub_verify:
  "GitHub_verifyWebhookSignature hmac payload signature secret = Inl error \<Longrightarrow>
   statusCode error = None"
  by (cases signature)
    (auto simp add: GitHub_verify_absent GitHub_verify_present dest: statusCode_timingSafeEqual)

lemma statusCode_GitLab_verify:
  "GitLab_verifyWebhookSignature hmac payload signature secret = Inl error \<Longrightarrow>
   statusCode error = None"
  by (cases signature)
    (auto simp add: GitLab_verify_absent GitLab_verify_present dest: statusCode_timingSafeEqual)

text \<open>
  Claim C9: with a secret configured, a request whose signature header is absent, or
  whose signature has another byte length than the expected signature, makes
  \<open>verifyWebhookSignature\<close> throw (for both providers). The request is answered through
  the error middleware with status 500, not with the 401 of the invalid-signature path,
  and the queues stay as they are.
\<close>

theorem verifyWebhookSignature_throws:
  assumes "isUUID (repositoryId req)"
  shows "(GITHUB_WEBHOOK_SECRET e = Some secret \<and> secret \<noteq> [] \<and>
          (case headers req ''x-hub-signature-256'' of
             None \<Rightarrow> True
           | Some s \<Rightarrow>
               length s \<noteq> length (''sha256='' @ hmac secret (JSON_stringify (reqBody req))))
          \<longrightarrow> isl (GitHub_verifyWebhookSignature hmac (JSON_stringify (reqBody req))
                     (headers req ''x-hub-signature-256'') secret) \<and>
              status (fst (github_route hmac e req qs)) = 500 \<and>
              snd (github_route hmac e req qs) = qs) \<and>
         (GITLAB_WEBHOOK_SECRET e = Some secret \<and> secret \<noteq> [] \<and>
          (case headers req ''x-gitlab-token'' of
             None \<Rightarrow> True
           | Some s \<Rightarrow> length s \<noteq> length (hmac secret (JSON_stringify (reqBody req))))
          \<longrightarrow> isl (GitLab_verifyWebhookSignature hmac (JSON_stringify (reqBody req))
                     (headers req ''x-gitlab-token'') secret) \<and>
              status (fst (gitlab_route hmac e req qs)) = 500 \<and>
              snd (gitlab_route hmac e req qs) = qs)"
proof (intro conjI impI)
  assume a: "GITHUB_WEBHOOK_SECRET e = Some secret \<and> secret \<noteq> [] \<and>
          (case headers req ''x-hub-signature-256'' of
             None \<Rightarrow> True
           | Some s \<Rightarrow>
               length s \<noteq> length (''sha256='' @ hmac secret (JSON_stringify (reqBody req))))"
  let ?v = "GitHub_verifyWebhookSignature hmac (JSON_stringify (reqBody req))
                     (headers req ''x-hub-signature-256'') secret"
  show v: "isl ?v"
    using a
    by (cases "headers req ''x-hub-signature-256''")
      (simp_all add: GitHub_verify_absent GitHub_verify_present timingSafeEqual_def)
  then obtain error where error: "?v = Inl error"
    by (cases ?v) simp_all
  have w: "github_webhook hmac e req qs = (Inl error, qs)"
    using assms a error by (simp add: github_webhook_secret)
  show "status (fst (github_route hmac e req qs)) = 500"
    using statusCode_GitHub_verify [OF error]
    by (simp add: github_route_thrown [OF w] errorHandler_status)
  show "snd (github_route hmac e req qs) = qs"
    by (simp add: github_route_thrown [OF w])
next
  assume a: "GITLAB_WEBHOOK_SECRET e = Some secret \<and> secret \<noteq> [] \<and>
          (case headers req ''x-gitlab-token'' of
             None \<Rightarrow> True
           | Some s \<Rightarrow> length s \<noteq> length (hmac secret (JSON_stringify (reqBody req))))"
  let ?v = "GitLab_verifyWebhookSignature hmac (JSON_stringify (reqBody req))
                     (headers req ''x-gitlab-token'') secret"
  show v: "isl ?v"
    using a
    by (cases "headers req ''x-gitlab-token''")
      (simp_all add: GitLab_verify_absent GitLab_verify_present timingSafeEqual_def)
  then obtain error where error: "?v = Inl error"
    by (cases ?v) simp_all
  have w: "gitlab_webhook hmac e req qs = (Inl error, qs)"
    using assms a error by (simp add: gitlab_webhook_secret)
  show "status (fst (gitlab_route hmac e req qs)) = 500"
    using statusCode_GitLab_verify [OF error]
    by (simp add: gitlab_route_thrown [OF w] errorHandler_status)
  show "snd (gitlab_route hmac e req qs) = qs"
    by (simp add: gitlab_route_thrown [OF w])
qed

theorem verifyWebhookSignature_throws_witness:
  "isUUID (repositoryId (sample_request None)) \<and>
   GITHUB_WEBHOOK_SECRET sample_env = Some ''s3cret'' \<and>
   GITLAB_WEBHOOK_SECRET sample_env = Some ''s3cret'' \<and>
   headers (sample_request None) ''x-hub-signature-256'' = None \<and>
   headers (sample_request None) ''x-gitlab-token'' = None \<and>
   isl (GitHub_verifyWebhookSignature sample_hmac (JSON_stringify (reqBody (sample_request None)))
          None ''s3cret'') \<and>
   isl (GitLab_verifyWebhookSignature sample_hmac (JSON_stringify (reqBody (sample_request None)))
          None ''s3cret'') \<and>
   status (fst (github_route sample_hmac sample_env (sample_request None) setupQueues)) = 500 \<and>
   status (fst (gitlab_route sample_hmac sample_env (sample_request None) setupQueues)) = 500 \<and>
   snd (github_route sample_hmac sample_env (sample_request None) setupQueues) = setupQueues \<and>
   snd (gitlab_route sample_hmac sample_env (sample_request None) setupQueues) = setupQueues"
proof -
  have id: "isUUID (repositoryId (sample_request None))"
    by (simp add: sample_request_def isUUID_sample)
  have sec: "GITHUB_WEBHOOK_SECRET sample_env = Some ''s3cret''"
    "GITLAB_WEBHOOK_SECRET sample_env = Some ''s3cret''"
    by (simp_all add: sample_env_def)
  have h: "headers (sample_request None) ''x-hub-signature-256'' = None"
    "headers (sample_request None) ''x-gitlab-token'' = None"
    by (simp_all add: sample_request_def)
  from verifyWebhookSignature_throws [where hmac = sample_hmac and e = sample_env
      and secret = "''s3cret''" and qs = setupQueues, OF id]
  show ?thesis
    using id sec h by simp
qed

text \<open>
  Claim C7, for requests with a valid repository identifier: when the provider's secret
  is unset (or empty), the request is answered with 200 and exactly one job is appended
  to the webhook queue, whatever the signature header is; the other queues are left as
  they are.
\<close>

theorem webhook_without_secret:
  assumes "isUUID (repositoryId req)"
  shows "(GITHUB_WEBHOOK_SECRET e = None \<or> GITHUB_WEBHOOK_SECRET e = Some [] \<longrightarrow>
          fst (github_route hmac e req qs) =
            \<lparr>status = 200, body = MessageBody ''Webhook received and queued for processing''\<rparr> \<and>
          jobs (webhookQueue (snd (github_route hmac e req qs))) =
            jobs (webhookQueue qs) @
            [\<lparr>job_id = decimal (Suc (last_id (webhookQueue qs))),
              job_name = ''process-github-webhook'',
              job_data = webhook_job_data (repositoryId req) (headers req ''x-github-event'')
                           (reqBody req) ''github'',
              opts = webhook_job_opts, state = waiting, progress = JNum 0,
              returnvalue = Some JNull, failedReason = None\<rparr>] \<and>
          analysisQueue (snd (github_route hmac e req qs)) = analysisQueue qs \<and>
          reportQueue (snd (github_route hmac e req qs)) = reportQueue qs) \<and>
         (GITLAB_WEBHOOK_SECRET e = None \<or> GITLAB_WEBHOOK_SECRET e = Some [] \<longrightarrow>
          fst (gitlab_route hmac e req qs) =
            \<lparr>status = 200, body = MessageBody ''Webhook received and queued for processing''\<rparr> \<and>
          jobs (webhookQueue (snd (gitlab_route hmac e req qs))) =
            jobs (webhookQueue qs) @
            [\<lparr>job_id = decimal (Suc (last_id (webhookQueue qs))),
              job_name = ''process-gitlab-webhook'',
              job_data = webhook_job_data (repositoryId req) (headers req ''x-gitlab-event'')
                           (reqBody req) ''gitlab'',
              opts = webhook_job_opts, state = waiting, progress = JNum 0,
              returnvalue = Some JNull, failedReason = None\<rparr>] \<and>
          analysisQueue (snd (gitlab_route hmac e req qs)) = analysisQueue qs \<and>
          reportQueue (snd (gitlab_route hmac e req qs)) = reportQueue qs)"
proof (intro conjI impI)
  assume a: "GITHUB_WEBHOOK_SECRET e = None \<or> GITHUB_WEBHOOK_SECRET e = Some []"
  note w = github_route_sent [OF github_webhook_no_secret [OF assms a]]
  show "fst (github_route hmac e req qs) =
      \<lparr>status = 200, body = MessageBody ''Webhook received and queued for processing''\<rparr>"
    by (simp add: w)
  show "jobs (webhookQueue (snd (github_route hmac e req qs))) =
            jobs (webhookQueue qs) @
            [\<lparr>job_id = decimal (Suc (last_id (webhookQueue qs))),
              job_name = ''process-github-webhook'',
              job_data = webhook_job_data (repositoryId req) (headers req ''x-github-event'')
                           (reqBody req) ''github'',
              opts = webhook_job_opts, state = waiting, progress = JNum 0,
              returnvalue = Some JNull, failedReason = None\<rparr>]"
    by (simp add: w jobs_Queue_add)
  show "analysisQueue (snd (github_route hmac e req qs)) = analysisQueue qs"
    by (simp add: w)
  show "reportQueue (snd (github_route hmac e req qs)) = reportQueue qs"
    by (simp add: w)
next
  assume a: "GITLAB_WEBHOOK_SECRET e = None \<or> GITLAB_WEBHOOK_SECRET e = Some []"
  note w = gitlab_route_sent [OF gitlab_webhook_no_secret [OF assms a]]
  show "fst (gitlab_route hmac e req qs) =
      \<lparr>status = 200, body = MessageBody ''Webhook received and queued for processing''\<rparr>"
    by (simp add: w)
  show "jobs (webhookQueue (snd (gitlab_route hmac e req qs))) =
            jobs (webhookQueue qs) @
            [\<lparr>job_id = decimal (Suc (last_id (webhookQueue qs))),
              job_name = ''process-gitlab-webhook'',
              job_data = webhook_job_data (repositoryId req) (headers req ''x-gitlab-event'')
                           (reqBody req) ''gitlab'',
              opts = webhook_job_opts, state = waiting, progress = JNum 0,
              returnvalue = Some JNull, failedReason = None\<rparr>]"
    by (simp add: w jobs_Queue_add)
  show "analysisQueue (snd (gitlab_route hmac e req qs)) = analysisQueue qs"
    by (simp add: w)
  show "reportQueue (snd (gitlab_route hmac e req qs)) = reportQueue qs"
    by (simp add: w)
qed

theorem webhook_without_secret_witness:
  "isUUID (repositoryId (sample_request (Some ''anything''))) \<and>
   GITHUB_WEBHOOK_SECRET open_env = None \<and> GITLAB_WEBHOOK_SECRET open_env = None \<and>
   status (fst (github_route sample_hmac open_env (sample_request (Some ''anything'')) setupQueues))
     = 200 \<and>
   map job_name (jobs (webhookQueue
     (snd (github_route sample_hmac open_env (sample_request (Some ''anything'')) setupQueues))))
     = [''process-github-webhook''] \<and>
   status (fst (gitlab_route sample_hmac open_env (sample_request (Some ''anything'')) setupQueues))
     = 200 \<and>
   map job_name (jobs (webhookQueue
     (snd (gitlab_route sample_hmac open_env (sample_request (Some ''anything'')) setupQueues))))
     = [''process-gitlab-webhook'']"
proof -
  have id: "isUUID (repositoryId (sample_request (Some ''anything'')))"
    by (simp add: sample_request_def isUUID_sample)
  have sec: "GITHUB_WEBHOOK_SECRET open_env = None" "GITLAB_WEBHOOK_SECRET open_env = None"
    by (simp_all add: open_env_def)
  have q: "jobs (webhookQueue setupQueues) = []"
    by (simp add: setupQueues_def)
  from webhook_without_secret [where hmac = sample_hmac and e = open_env and qs = setupQueues,
      OF id]
  show ?thesis
    using id sec q by simp
qed

text \<open>
  Claim C7 as stated, for every request: with no secret configured, a request whose
  repository identifier is not a UUID is answered with 400 and enqueues nothing.
\<close>

theorem webhook_without_secret_invalid_id:
  "GITHUB_WEBHOOK_SECRET open_env = None \<and>
   github_route sample_hmac open_env ((sample_request None)\<lparr>repositoryId := ''42''\<rparr>) setupQueues =
     (\<lparr>status = 400, body = ErrorBody ''Internal Server Error''\<rparr>, setupQueues)"
proof -
  have n: "\<not> isUUID (repositoryId ((sample_request None)\<lparr>repositoryId := ''42''\<rparr>))"
    by (simp add: isUUID_def)
  show ?thesis
    by (simp add: github_route_thrown [OF github_webhook_invalid_id [OF n]] errorHandler_def
        open_env_def)
qed


section \<open>Retry delays: properties\<close>

lemma retryDelay_mono:
  "m \<le> n \<Longrightarrow> retryDelay b m \<le> retryDelay b n"
proof (cases "backoff_type b")
  case exponential
  assume "m \<le> n"
  then have "(2::nat) ^ (m - 1) \<le> 2 ^ (n - 1)"
    by (intro power_increasing diff_le_mono) simp_all
  with exponential show ?thesis
    by (simp add: retryDelay_def)
next
  case fixed_delay
  then show ?thesis
    by (simp add: retryDelay_def)
qed

text \<open>
  Claim C4: the three queues have the policies analysis (exponential, 2000 ms, 3
  attempts), webhook (exponential, 1000 ms, 5 attempts) and report (fixed, 5000 ms, 2
  attempts); under the spec's delay formula the delay before attempt \<open>n\<close> is
  \<open>baseDelay * 2^(n-1)\<close> for the exponential policies and \<open>baseDelay\<close> for the fixed
  one, so from the first attempt on the delays of every queue never decrease, and those
  of the report queue are constant.
\<close>

theorem retry_policies:
  assumes "1 \<le> m" and "m \<le> n"
  shows "policy analysis =
           \<lparr>attempts = 3, backoff = \<lparr>backoff_type = exponential, backoff_delay = 2000\<rparr>\<rparr> \<and>
         policy webhook =
           \<lparr>attempts = 5, backoff = \<lparr>backoff_type = exponential, backoff_delay = 1000\<rparr>\<rparr> \<and>
         policy report =
           \<lparr>attempts = 2, backoff = \<lparr>backoff_type = fixed_delay, backoff_delay = 5000\<rparr>\<rparr> \<and>
         retryDelay (backoff (policy analysis)) n = 2000 * 2 ^ (n - 1) \<and>
         retryDelay (backoff (policy webhook)) n = 1000 * 2 ^ (n - 1) \<and>
         retryDelay (backoff (policy report)) n = 5000 \<and>
         retryDelay (backoff (policy k)) m \<le> retryDelay (backoff (policy k)) n \<and>
         retryDelay (backoff (policy report)) m = retryDelay (backoff (policy report)) n"
proof -
  have p: "policy analysis =
           \<lparr>attempts = 3, backoff = \<lparr>backoff_type = exponential, backoff_delay = 2000\<rparr>\<rparr>"
    "policy webhook =
           \<lparr>attempts = 5, backoff = \<lparr>backoff_type = exponential, backoff_delay = 1000\<rparr>\<rparr>"
    "policy report =
           \<lparr>attempts = 2, backoff = \<lparr>backoff_type = fixed_delay, backoff_delay = 5000\<rparr>\<rparr>"
    by (simp_all add: policy_def setupQueues_def)
  show ?thesis
    using assms(2) by (simp add: p retryDelay_mono) (simp add: retryDelay_def)
qed

theorem retry_policies_witness:
  "(1::nat) \<le> 2 \<and> (2::nat) \<le> 3 \<and>
   retryDelay (backoff (policy analysis)) 2 = 4000 \<and>
   retryDelay (backoff (policy analysis)) 3 = 8000 \<and>
   retryDelay (backoff (policy webhook)) 3 = 4000 \<and>
   retryDelay (backoff (policy report)) 2 = 5000 \<and>
   retryDelay (backoff (policy report)) 3 = 5000 \<and>
   retryDelay (backoff (policy webhook)) 2 \<le> retryDelay (backoff (policy webhook)) 3"
proof -
  have a: "(1::nat) \<le> 2" and b: "(2::nat) \<le> 3" by simp_all
  from retry_policies [OF a b, of webhook]
  show ?thesis by (simp add: retryDelay_def)
qed


section \<open>Report routes: properties\<close>



lemma sample_auth_passes:
  "authenticateToken sample_verify sample_env sample_auth =
     Inr \<lparr>user_id = Some (JStr ''u1''), email = None, username = None,
          role = Some (JStr ''user'')\<rparr>"
  by (simp add: authenticateToken_def sample_verify_def sample_env_def sample_auth_def
      nth_opt_def)





lemma download_report_file:
  assumes "getJob (reportQueue qs) jobId = Some job" and "state job = completed"
    and "returnvalue job = Some result" and "truthy result"
    and "get_prop result ''filePath'' = Some (JStr path)" and "path \<noteq> []"
  shows "download_report jobId qs fs =
     (case fs path of
        None \<Rightarrow> (Inr (UnhandledStreamError path), fs)
      | Some content \<Rightarrow>
          (Inr (Piped
                 (case get_prop result ''contentType'' of
                    None \<Rightarrow> ''application/pdf''
                  | Some c \<Rightarrow> if truthy c then js_toString c else ''application/pdf'')
                 (''attachment; filename='' @ [CHR 0x22] @
                  template (get_prop result ''filename'') @ [CHR 0x22])
                 content),
           fs(path := None)))"
  using assms by (simp add: download_report_def isString_def Let_def split: option.split)

lemma download_route_passed:
  "authenticateToken verify e authHeader = Inr u \<Longrightarrow>
   download_route verify e authHeader jobId qs fs = download_report jobId qs fs"
  by (simp add: download_route_def)

text \<open>
  Claim C10 says that a second download of the same completed job fails with
  \<open>Report file not found\<close> (404). The first download pipes the file and deletes it, and
  the job is as it was; but the check behind that message looks at the job's return
  value, which still names the path, so the second download passes it and opens a read
  stream on the deleted file. The stream's error has no listener, and no 404 is sent.
\<close>

theorem second_download_misses_file:
  assumes "authenticateToken verify e authHeader = Inr u"
    and "getJob (reportQueue qs) jobId = Some job" and "state job = completed"
    and "returnvalue job = Some result" and "truthy result"
    and "get_prop result ''filePath'' = Some (JStr path)" and "path \<noteq> []"
    and "fs path = Some content"
  shows "(\<exists>contentType disposition.
            fst (download_route verify e authHeader jobId qs fs) =
              Inr (Piped contentType disposition content)) \<and>
         snd (download_route verify e authHeader jobId qs fs) = fs(path := None) \<and>
         download_route verify e authHeader jobId qs
             (snd (download_route verify e authHeader jobId qs fs)) =
           (Inr (UnhandledStreamError path), fs(path := None)) \<and>
         fst (download_route verify e authHeader jobId qs
                (snd (download_route verify e authHeader jobId qs fs))) \<noteq>
           Inl (CustomError ''Report file not found'' 404)"
proof -
  note d = download_report_file [OF assms(2-7)]
  have first: "download_report jobId qs fs =
      (Inr (Piped
             (case get_prop result ''contentType'' of
                None \<Rightarrow> ''application/pdf''
              | Some c \<Rightarrow> if truthy c then js_toString c else ''application/pdf'')
             (''attachment; filename='' @ [CHR 0x22] @
              template (get_prop result ''filename'') @ [CHR 0x22])
             content),
       fs(path := None))"
    using assms(8) by (simp add: d)
  have second: "download_report jobId qs (fs(path := None)) =
      (Inr (UnhandledStreamError path), fs(path := None))"
    by (simp add: d)
  show ?thesis
    by (simp add: download_route_passed [OF assms(1)] first second)
qed

theorem second_download_misses_file_witness:
  "getJob (reportQueue sample_queues) ''1'' = Some sample_report_job \<and>
   sample_fs ''/tmp/reports/1.pdf'' = Some ''%PDF-1.7'' \<and>
   download_route sample_verify sample_env sample_auth ''1'' sample_queues sample_fs =
     (Inr (Piped ''application/pdf''
            (''attachment; filename='' @ [CHR 0x22] @ ''review.pdf'' @ [CHR 0x22]) ''%PDF-1.7''),
      sample_fs(''/tmp/reports/1.pdf'' := None)) \<and>
   download_route sample_verify sample_env sample_auth ''1'' sample_queues
       (sample_fs(''/tmp/reports/1.pdf'' := None)) =
     (Inr (UnhandledStreamError ''/tmp/reports/1.pdf''), sample_fs(''/tmp/reports/1.pdf'' := None))"
proof -
  have g: "getJob (reportQueue sample_queues) ''1'' = Some sample_report_job"
    by (simp add: getJob_def sample_queues_def sample_report_job_def)
  have s: "state sample_report_job = completed"
    by (simp add: sample_report_job_def)
  have r: "returnvalue sample_report_job =
      Some (JObj [(''filePath'', JStr ''/tmp/reports/1.pdf''), (''filename'', JStr ''review.pdf'')])"
    by (simp add: sample_report_job_def)
  have t: "truthy (JObj [(''filePath'', JStr ''/tmp/reports/1.pdf''),
      (''filename'', JStr ''review.pdf'')])"
    by simp
  have p: "get_prop (JObj [(''filePath'', JStr ''/tmp/reports/1.pdf''),
      (''filename'', JStr ''review.pdf'')]) ''filePath'' = Some (JStr ''/tmp/reports/1.pdf'')"
    by simp
  have ne: "''/tmp/reports/1.pdf'' \<noteq> []" by simp
  have f: "sample_fs ''/tmp/reports/1.pdf'' = Some ''%PDF-1.7''"
    by (simp add: sample_fs_def)
  from second_download_misses_file [where fs = sample_fs, OF sample_auth_passes g s r t p ne f]
  show ?thesis
    using g f
    by (simp add: download_route_passed [OF sample_auth_passes]
        download_report_file [OF g s r t p ne] template_def)
qed


section \<open>The lint service: properties\<close>

lemma fixCode_eq:
  "fixCode lintFiles tempDir fs sourceCode filename customConfig =
     (case lintFiles
             \<lparr>useEslintrc = False,
              baseConfig = (case customConfig of None \<Rightarrow> getDefaultConfig | Some c \<Rightarrow> c),
              opt_fix = True\<rparr>
             (fs(path_join tempDir filename \<mapsto> sourceCode)) [path_join tempDir filename] of
        Inl error \<Rightarrow> (Inl error, fs(path_join tempDir filename \<mapsto> sourceCode))
      | Inr [] \<Rightarrow>
          (Inl (TypeError ''Cannot read properties of undefined''),
           fs(path_join tempDir filename := None))
      | Inr (result # rest) \<Rightarrow>
          (Inr \<lparr>fixed = (fixableErrorCount result > 0 \<or> fixableWarningCount result > 0),
                fix_output = sourceCode, fix_messages = messages result\<rparr>,
           fs(path_join tempDir filename := None)))"
  by (cases customConfig) (simp_all add: fixCode_def Let_def split: sum.split list.split)

text \<open>
  Claim C3 says that \<open>fixCode\<close> returns the corrected text and that a second pass over
  its output reports \<open>fixed = false\<close>. The service reads the temporary file back without
  having written the engine's corrections to it, so \<open>output\<close> is the text that was
  passed in, for every engine; and a second pass over the output is the first pass
  again, with the same \<open>fixed\<close> flag, the same messages and the same file system.
\<close>

theorem fixCode_returns_its_input:
  assumes "fixCode lintFiles tempDir fs sourceCode filename customConfig = (Inr r, fs')"
  shows "fix_output r = sourceCode \<and>
         fs' = fs(path_join tempDir filename := None) \<and>
         fixCode lintFiles tempDir fs' (fix_output r) filename customConfig = (Inr r, fs')"
proof -
  let ?p = "path_join tempDir filename"
  let ?o = "\<lparr>useEslintrc = False,
              baseConfig = (case customConfig of None \<Rightarrow> getDefaultConfig | Some c \<Rightarrow> c),
              opt_fix = True\<rparr>"
  from assms obtain result rest where
    l: "lintFiles ?o (fs(?p \<mapsto> sourceCode)) [?p] = Inr (result # rest)"
    and r: "r = \<lparr>fixed = (fixableErrorCount result > 0 \<or> fixableWarningCount result > 0),
                fix_output = sourceCode, fix_messages = messages result\<rparr>"
    and fs': "fs' = fs(?p := None)"
    by (auto simp add: fixCode_eq split: sum.splits list.splits)
  have same: "(fs(?p := None))(?p \<mapsto> sourceCode) = fs(?p \<mapsto> sourceCode)"
    by simp
  have "fixCode lintFiles tempDir (fs(?p := None)) sourceCode filename customConfig =
      (Inr r, fs(?p := None))"
    by (simp add: fixCode_eq [of lintFiles tempDir "fs(?p := None)"] same l r)
  with r fs' show ?thesis
    by simp
qed

theorem fixCode_returns_its_input_witness:
  "fixCode sample_lintFiles ''/tmp/code-reviewer-eslint'' Map.empty ''var a = 1;;'' ''a.js'' None =
     (Inr \<lparr>fixed = False, fix_output = ''var a = 1;;'', fix_messages = []\<rparr>, Map.empty) \<and>
   fixCode sample_lintFiles ''/tmp/code-reviewer-eslint'' Map.empty
     (fix_output \<lparr>fixed = False, fix_output = ''var a = 1;;'', fix_messages = []\<rparr>) ''a.js'' None =
     (Inr \<lparr>fixed = False, fix_output = ''var a = 1;;'', fix_messages = []\<rparr>, Map.empty)"
proof -
  have a: "fixCode sample_lintFiles ''/tmp/code-reviewer-eslint'' Map.empty ''var a = 1;;''
       ''a.js'' None =
     (Inr \<lparr>fixed = False, fix_output = ''var a = 1;;'', fix_messages = []\<rparr>, Map.empty)"
    by (simp add: fixCode_eq sample_lintFiles_def clean_result_def)
  from fixCode_returns_its_input [where lintFiles = sample_lintFiles and fs = Map.empty, OF a]
  show ?thesis
    using a by simp
qed










section \<open>Real-time fanout: properties\<close>





end
